theory Spec2Isabelle
  imports Main "HOL-Library.Sublist"
begin


section \<open>Strings\<close>

text \<open>
  A Python \<open>str\<close> is modelled as a \<open>string\<close> holding its UTF-8 bytes. The only
  non-ASCII character of the sources is the bullet U+2022 of the demo template.
\<close>

definition bullet :: string where
  "bullet = [CHR 0xE2, CHR 0x80, CHR 0xA2]"

text \<open>
  \<open>str.strip()\<close> without argument removes leading and trailing whitespace characters:
  the code points 9 to 13, 28 to 32, U+0085, U+00A0, U+1680, U+2000 to U+200A, U+2028,
  U+2029, U+202F, U+205F and U+3000, here each as its UTF-8 bytes.
\<close>

definition whitespace :: "string list" where
  "whitespace =
     [[CHR 0x09], [CHR 0x0A], [CHR 0x0B], [CHR 0x0C], [CHR 0x0D],
      [CHR 0x1C], [CHR 0x1D], [CHR 0x1E], [CHR 0x1F], [CHR 0x20],
      [CHR 0xC2, CHR 0x85], [CHR 0xC2, CHR 0xA0], [CHR 0xE1, CHR 0x9A, CHR 0x80],
      [CHR 0xE2, CHR 0x80, CHR 0x80], [CHR 0xE2, CHR 0x80, CHR 0x81],
      [CHR 0xE2, CHR 0x80, CHR 0x82], [CHR 0xE2, CHR 0x80, CHR 0x83],
      [CHR 0xE2, CHR 0x80, CHR 0x84], [CHR 0xE2, CHR 0x80, CHR 0x85],
      [CHR 0xE2, CHR 0x80, CHR 0x86], [CHR 0xE2, CHR 0x80, CHR 0x87],
      [CHR 0xE2, CHR 0x80, CHR 0x88], [CHR 0xE2, CHR 0x80, CHR 0x89],
      [CHR 0xE2, CHR 0x80, CHR 0x8A], [CHR 0xE2, CHR 0x80, CHR 0xA8],
      [CHR 0xE2, CHR 0x80, CHR 0xA9], [CHR 0xE2, CHR 0x80, CHR 0xAF],
      [CHR 0xE2, CHR 0x81, CHR 0x9F], [CHR 0xE3, CHR 0x80, CHR 0x80]]"

text \<open>Removing, as long as there is one, a leading character of a given list.\<close>

function strip_leading :: "string list \<Rightarrow> string \<Rightarrow> string" where
  "strip_leading ws s =
     (case find (\<lambda>w. w \<noteq> [] \<and> prefix w s) ws of
        None \<Rightarrow> s
      | Some w \<Rightarrow> strip_leading ws (drop (length w) s))"
  by pat_completeness auto
termination
  by (relation "measure (\<lambda>(ws, s). length s)") (auto simp: find_Some_iff prefix_def)

definition lstrip :: "string \<Rightarrow> string" where
  "lstrip s = strip_leading whitespace s"

definition rstrip :: "string \<Rightarrow> string" where
  "rstrip s = rev (strip_leading (map rev whitespace) (rev s))"

definition strip :: "string \<Rightarrow> string" where
  "strip s = rstrip (lstrip s)"

text \<open>Truthiness of an \<open>Optional[str]\<close>: \<open>None\<close> and the empty string are falsy.\<close>

fun truthy :: "string option \<Rightarrow> bool" where
  "truthy None = False"
| "truthy (Some s) = (s \<noteq> [])"

section \<open>ai_service.py\<close>

text \<open>
  \<open>AIService\<close> keeps the provider credential read from the environment and the client
  built from it; the client is \<open>None\<close> when no credential is set or when the
  constructor of the client raised.
\<close>

datatype OpenAI = OpenAI string

record AIService =
  openai_api_key :: "string option"
  client :: "OpenAI option"

definition AIService_init :: "string option \<Rightarrow> bool \<Rightarrow> AIService" where
  "AIService_init env_key ctor_raises =
     (if truthy env_key
      then (if ctor_raises
            then \<lparr>openai_api_key = env_key, client = None\<rparr>
            else \<lparr>openai_api_key = env_key, client = Some (OpenAI (the env_key))\<rparr>)
      else \<lparr>openai_api_key = env_key, client = None\<rparr>)"

text \<open>
  The result of one call of \<open>client.chat.completions.create\<close>: the call raises, or it
  returns a response whose \<open>choices\<close> each carry a \<open>message.content\<close> of type
  \<open>Optional[str]\<close>. The provider is a function of the user prompt.
\<close>

datatype api_outcome = ApiRaises | ApiReturns "string option list"

type_synonym provider = "string \<Rightarrow> api_outcome"

datatype exc =
    ExpiredSignatureError
  | InvalidTokenError
  | KeyError
  | ValueError
  | IndexError
  | APIError
  | IntegrityError
  | RuntimeError
  | PasswordError
  | AttributeError string
  | RenderError string

text \<open>\<open>_generate_demo_content\<close>: one f-string, the topic interpolated.\<close>

definition generate_demo_content :: "AIService \<Rightarrow> string \<Rightarrow> string" where
  "generate_demo_content self topic =
   ''Executive Summary:\<newline>'' @
   ''This comprehensive report examines '' @ topic @ '' from multiple perspectives, providing insights into current trends, challenges, and future opportunities. Our analysis reveals significant developments in this field that warrant attention from stakeholders and decision-makers.\<newline>'' @
   ''\<newline>'' @
   ''Introduction and Background:\<newline>'' @
   topic @ '' has emerged as a critical area of focus in today's rapidly evolving landscape. Understanding its implications requires a thorough examination of historical context, current applications, and future potential. This report aims to provide a detailed analysis that can inform strategic decision-making.\<newline>'' @
   ''\<newline>'' @
   ''Current State Analysis:\<newline>'' @
   ''The current state of '' @ topic @ '' is characterized by rapid growth and innovation. Key players in the market are investing heavily in research and development, leading to breakthrough technologies and methodologies. Market adoption rates have shown consistent upward trends, indicating strong demand and acceptance.\<newline>'' @
   ''\<newline>'' @
   ''Key market indicators include:\<newline>'' @
   bullet @ '' Increased investment from venture capital and institutional investors\<newline>'' @
   bullet @ '' Growing number of specialized companies and startups\<newline>'' @
   bullet @ '' Expansion of use cases across various industries\<newline>'' @
   bullet @ '' Enhanced regulatory frameworks and standards\<newline>'' @
   ''\<newline>'' @
   ''Key Findings and Insights:\<newline>'' @
   ''Our research has identified several critical findings regarding '' @ topic @ '':\<newline>'' @
   ''\<newline>'' @
   ''1. Market Growth: The sector has experienced unprecedented growth rates, with projections indicating continued expansion over the next five years.\<newline>'' @
   ''\<newline>'' @
   ''2. Technology Advancement: Significant technological breakthroughs have improved efficiency, accuracy, and accessibility.\<newline>'' @
   ''\<newline>'' @
   ''3. Industry Adoption: Major corporations across various sectors are implementing solutions related to '' @ topic @ '', driving mainstream acceptance.\<newline>'' @
   ''\<newline>'' @
   ''4. Consumer Behavior: End-user preferences and behaviors are evolving, creating new opportunities for innovation and service delivery.\<newline>'' @
   ''\<newline>'' @
   ''Challenges and Opportunities:\<newline>'' @
   ''While '' @ topic @ '' presents numerous opportunities, several challenges must be addressed:\<newline>'' @
   ''\<newline>'' @
   ''Challenges:\<newline>'' @
   bullet @ '' Regulatory uncertainty in some jurisdictions\<newline>'' @
   bullet @ '' Skills gap in the workforce\<newline>'' @
   bullet @ '' Infrastructure limitations\<newline>'' @
   bullet @ '' Privacy and security concerns\<newline>'' @
   bullet @ '' Cost barriers for smaller organizations\<newline>'' @
   ''\<newline>'' @
   ''Opportunities:\<newline>'' @
   bullet @ '' Emerging markets showing high growth potential\<newline>'' @
   bullet @ '' Cross-industry collaboration possibilities\<newline>'' @
   bullet @ '' Innovation in supporting technologies\<newline>'' @
   bullet @ '' Government initiatives and funding programs\<newline>'' @
   bullet @ '' Increasing consumer awareness and demand\<newline>'' @
   ''\<newline>'' @
   ''Future Trends and Predictions:\<newline>'' @
   ''Based on current trajectories and expert analysis, we anticipate several key trends in '' @ topic @ '':\<newline>'' @
   ''\<newline>'' @
   ''1. Increased Automation: Greater integration of automated systems and processes\<newline>'' @
   ''2. Enhanced User Experience: Focus on intuitive interfaces and user-centric design\<newline>'' @
   ''3. Sustainability Integration: Growing emphasis on environmental and social responsibility\<newline>'' @
   ''4. Global Standardization: Development of universal standards and protocols\<newline>'' @
   ''5. Democratization: Increased accessibility for smaller organizations and individuals\<newline>'' @
   ''\<newline>'' @
   ''Recommendations:\<newline>'' @
   ''Based on our analysis, we recommend the following strategic actions:\<newline>'' @
   ''\<newline>'' @
   ''1. Investment Strategy: Organizations should consider strategic investments in '' @ topic @ '' to maintain competitive advantage.\<newline>'' @
   ''\<newline>'' @
   ''2. Skill Development: Invest in training and development programs to build internal capabilities.\<newline>'' @
   ''\<newline>'' @
   ''3. Partnership Opportunities: Explore collaborative partnerships with technology providers and industry leaders.\<newline>'' @
   ''\<newline>'' @
   ''4. Risk Management: Develop comprehensive risk assessment and mitigation strategies.\<newline>'' @
   ''\<newline>'' @
   ''5. Regulatory Compliance: Stay informed about evolving regulations and ensure compliance frameworks are in place.\<newline>'' @
   ''\<newline>'' @
   ''Conclusion:\<newline>'' @
   topic @ '' represents a significant opportunity for organizations willing to embrace innovation and adapt to changing market conditions. While challenges exist, the potential benefits far outweigh the risks for those who approach implementation strategically.\<newline>'' @
   ''\<newline>'' @
   ''Success in this domain requires a balanced approach that considers technological capabilities, market dynamics, regulatory requirements, and organizational readiness. Organizations that act decisively while maintaining flexibility will be best positioned to capitalize on the opportunities presented by '' @ topic @ ''.\<newline>'' @
   ''\<newline>'' @
   ''The landscape will continue to evolve rapidly, making it essential for stakeholders to remain informed and agile in their approach. Regular reassessment of strategies and objectives will be crucial for long-term success in this dynamic environment.''"

definition prompt :: "string \<Rightarrow> string" where
  "prompt topic =
   ''\<newline>'' @
   ''        Create a comprehensive, detailed research report on the topic: '' @ [CHR 0x22] @ topic @ [CHR 0x22] @ ''\<newline>'' @
   ''        \<newline>'' @
   ''        The report should include:\<newline>'' @
   ''        1. Executive Summary\<newline>'' @
   ''        2. Introduction and Background\<newline>'' @
   ''        3. Current State Analysis\<newline>'' @
   ''        4. Key Findings and Insights\<newline>'' @
   ''        5. Challenges and Opportunities\<newline>'' @
   ''        6. Future Trends and Predictions\<newline>'' @
   ''        7. Recommendations\<newline>'' @
   ''        8. Conclusion\<newline>'' @
   ''        \<newline>'' @
   ''        Make the report professional, well-structured, and informative.\<newline>'' @
   ''        Use clear headings for each section (end each heading with a colon).\<newline>'' @
   ''        Provide detailed explanations and analysis.\<newline>'' @
   ''        The report should be suitable for business or academic purposes.\<newline>'' @
   ''        ''"

text \<open>\<open>response.choices[0].message.content\<close>; indexing an empty list raises.\<close>

fun first_choice_content :: "api_outcome \<Rightarrow> exc + string option" where
  "first_choice_content ApiRaises = Inl APIError"
| "first_choice_content (ApiReturns []) = Inl IndexError"
| "first_choice_content (ApiReturns (c # cs)) = Inr c"

text \<open>
  \<open>_generate_with_openai\<close>: without a client the demo content; otherwise the call,
  inside \<open>try\<close>; \<open>except Exception\<close> gives the demo content; a falsy content gives
  the demo content; a truthy one is returned stripped.
\<close>

definition generate_with_openai :: "AIService \<Rightarrow> provider \<Rightarrow> string \<Rightarrow> exc + string" where
  "generate_with_openai self api topic =
     (case client self of
        None \<Rightarrow> Inr (generate_demo_content self topic)
      | Some cl \<Rightarrow>
          (case first_choice_content (api (prompt topic)) of
             Inl e \<Rightarrow> Inr (generate_demo_content self topic)
           | Inr content \<Rightarrow>
               Inr (if truthy content then strip (the content)
                    else generate_demo_content self topic)))"

text \<open>
  \<open>generate_report_content\<close>: with a truthy credential the provider path, any
  exception of it caught and replaced by the demo content; else the demo content.
\<close>

definition generate_report_content :: "AIService \<Rightarrow> provider \<Rightarrow> string \<Rightarrow> exc + string" where
  "generate_report_content self api topic =
     (if truthy (openai_api_key self)
      then (case generate_with_openai self api topic of
              Inl e \<Rightarrow> Inr (generate_demo_content self topic)
            | Inr body \<Rightarrow> Inr body)
      else Inr (generate_demo_content self topic))"
section \<open>Integers as text\<close>

text \<open>
  \<open>str(n)\<close> of a Python \<open>int\<close> is its decimal numeral, with a minus sign when negative.
  \<open>int(s)\<close> of an ASCII \<open>str\<close> skips the whitespace of C (9 to 13 and 32) at both
  ends, reads an optional sign and then decimal digits, where single underscores may
  stand between digits; anything else raises \<open>ValueError\<close>. For a text with non-ASCII
  characters \<open>int\<close> also reads the spaces and decimal digits of Unicode; these and the
  limit of CPython on the length of a numeral are outside the model, which raises
  \<open>ValueError\<close> there. The integers converted by this program are the row ids of the
  users.
\<close>

definition is_c_space :: "char \<Rightarrow> bool" where
  "is_c_space c = (c \<in> set [CHR 0x09, CHR 0x0A, CHR 0x0B, CHR 0x0C, CHR 0x0D, CHR 0x20])"

definition skip_c_space :: "string \<Rightarrow> string" where
  "skip_c_space s = rev (dropWhile is_c_space (rev (dropWhile is_c_space s)))"

definition digit_char :: "nat \<Rightarrow> char" where
  "digit_char d = char_of (48 + d)"

definition is_digit :: "char \<Rightarrow> bool" where
  "is_digit c = (48 \<le> (of_char c :: nat) \<and> (of_char c :: nat) \<le> 57)"

definition digit_val :: "char \<Rightarrow> nat" where
  "digit_val c = of_char c - 48"

fun str_nat :: "nat \<Rightarrow> string" where
  "str_nat n = (if n < 10 then [digit_char n] else str_nat (n div 10) @ [digit_char (n mod 10)])"

definition str_int :: "int \<Rightarrow> string" where
  "str_int i = (if i < 0 then CHR ''-'' # str_nat (nat (- i)) else str_nat (nat i))"

fun digits_ok :: "string \<Rightarrow> bool" where
  "digits_ok [] = True"
| "digits_ok (c # cs) =
     (if is_digit c then digits_ok cs
      else if c = CHR ''_''
        then (case cs of [] \<Rightarrow> False | d # ds \<Rightarrow> is_digit d \<and> digits_ok ds)
        else False)"

definition parse_nat :: "string \<Rightarrow> nat option" where
  "parse_nat ds =
     (case ds of
        [] \<Rightarrow> None
      | c # cs \<Rightarrow>
          if is_digit c \<and> digits_ok cs
          then Some (foldl (\<lambda>a d. 10 * a + digit_val d) 0 (filter is_digit ds))
          else None)"

definition py_int :: "string \<Rightarrow> exc + int" where
  "py_int s =
     (let t = skip_c_space s in
      if t \<noteq> [] \<and> hd t = CHR ''-''
      then (case parse_nat (tl t) of None \<Rightarrow> Inl ValueError | Some n \<Rightarrow> Inr (- int n))
      else if t \<noteq> [] \<and> hd t = CHR ''+''
      then (case parse_nat (tl t) of None \<Rightarrow> Inl ValueError | Some n \<Rightarrow> Inr (int n))
      else (case parse_nat t of None \<Rightarrow> Inl ValueError | Some n \<Rightarrow> Inr (int n)))"

section \<open>auth.py\<close>

definition SECRET_KEY :: "string option \<Rightarrow> string" where
  "SECRET_KEY getenv =
     (case getenv of None \<Rightarrow> ''your-secret-key-here-change-in-production'' | Some k \<Rightarrow> k)"

definition ACCESS_TOKEN_EXPIRE_MINUTES :: int where
  "ACCESS_TOKEN_EXPIRE_MINUTES = 30"

text \<open>
  The PyJWT library is outside the repository; its HS256 tokens are modelled symbolically.
  A token string is either the compact serialisation of a claims set signed with some key
  (\<open>JWS key claims\<close>), or any other text (\<open>Malformed\<close>), which \<open>jwt.decode\<close> rejects
  whatever the key and the time: not three well-formed segments, another algorithm in the
  header, claims of a wrong type. Times are whole seconds since the epoch, as the
  NumericDate claims of a token are; the claims set carries the three claims this program
  writes.

  HMAC-SHA256 works on a key block of 64 bytes: a key of at most 64 bytes is padded with
  zero bytes, a longer key is replaced by its SHA-256 digest, which is kept symbolic. A
  signature verifies under a key exactly when the two key blocks are equal.
\<close>

datatype hmac_block = Block string | Digest string

definition hmac_key :: "string \<Rightarrow> hmac_block" where
  "hmac_key k =
     (if length k \<le> 64 then Block (k @ replicate (64 - length k) (CHR 0x00)) else Digest k)"

record jwt_claims =
  jwt_exp :: "int option"
  jwt_iat :: "int option"
  jwt_sub :: "string option"

datatype token = Malformed string | JWS string jwt_claims

definition jwt_encode :: "jwt_claims \<Rightarrow> string \<Rightarrow> token" where
  "jwt_encode payload key = JWS key payload"

text \<open>
  \<open>jwt.decode(token, key, algorithms=[ALGORITHM])\<close>: every failure is a subclass of
  \<open>InvalidTokenError\<close>; \<open>ExpiredSignatureError\<close> is kept apart since the caller names
  it. The signature is checked first, then \<open>iat\<close> (not in the future), then \<open>exp\<close>
  (expired when \<open>exp \<le> now\<close>).
\<close>

definition jwt_decode :: "token \<Rightarrow> string \<Rightarrow> int \<Rightarrow> exc + jwt_claims" where
  "jwt_decode tok key now =
     (case tok of
        Malformed raw \<Rightarrow> Inl InvalidTokenError
      | JWS k payload \<Rightarrow>
          if hmac_key k \<noteq> hmac_key key then Inl InvalidTokenError
          else if (case jwt_iat payload of None \<Rightarrow> False | Some i \<Rightarrow> now < i)
            then Inl InvalidTokenError
          else if (case jwt_exp payload of None \<Rightarrow> False | Some e \<Rightarrow> e \<le> now)
            then Inl ExpiredSignatureError
          else Inr payload)"

text \<open>
  \<open>encode_token\<close> reads the UTC clock twice, first for \<open>exp\<close>, then for \<open>iat\<close>.
\<close>

definition encode_token :: "string \<Rightarrow> int \<Rightarrow> int \<Rightarrow> int \<Rightarrow> token" where
  "encode_token key utcnow_exp utcnow_iat user_id =
     jwt_encode
       \<lparr>jwt_exp = Some (utcnow_exp + ACCESS_TOKEN_EXPIRE_MINUTES * 60),
        jwt_iat = Some utcnow_iat,
        jwt_sub = Some (str_int user_id)\<rparr> key"

text \<open>
  \<open>decode_token\<close>: the two \<open>except\<close> clauses turn the errors of \<open>jwt.decode\<close> into
  \<open>None\<close>; \<open>payload['sub']\<close> and \<open>int(...)\<close> are inside the \<open>try\<close>, but their
  \<open>KeyError\<close> and \<open>ValueError\<close> are not subclasses of \<open>InvalidTokenError\<close>.
\<close>

definition decode_token :: "string \<Rightarrow> int \<Rightarrow> token \<Rightarrow> exc + int option" where
  "decode_token key now tok =
     (case jwt_decode tok key now of
        Inl ExpiredSignatureError \<Rightarrow> Inr None
      | Inl InvalidTokenError \<Rightarrow> Inr None
      | Inl e \<Rightarrow> Inl e
      | Inr payload \<Rightarrow>
          (case jwt_sub payload of
             None \<Rightarrow> Inl KeyError
           | Some s \<Rightarrow>
               (case py_int s of
                  Inl e \<Rightarrow> Inl e
                | Inr n \<Rightarrow> Inr (Some n))))"

section \<open>models.py\<close>

text \<open>
  The two tables. \<open>users.email\<close> and \<open>users.username\<close> are declared \<open>unique=True\<close>;
  \<open>id\<close> is the integer primary key the store assigns.
\<close>

record User =
  u_id :: int
  u_email :: string
  u_username :: string
  u_hashed_password :: string
  u_created_at :: int

record Report =
  r_id :: int
  r_user_id :: int
  r_topic :: string
  r_filename :: string
  r_file_path :: string
  r_created_at :: int

record UserCreate =
  email :: string
  username :: string
  password :: string

record UserLogin =
  login_email :: string
  login_password :: string

section \<open>The stores\<close>

text \<open>
  The persistent state: the rows of the two tables and the content store, a map from the
  paths the program passes to the operating system to what is found there, a regular
  file with its bytes or a directory; \<open>os.path.exists\<close> holds for the paths in its
  domain. At startup \<open>lifespan\<close> creates the tables and the directory \<open>reports\<close>, so
  that \<open>reports/.\<close> and \<open>reports/..\<close> are directories from then on.
\<close>

datatype entry = RegularFile string | Directory

record state =
  users :: "User list"
  reports :: "Report list"
  files :: "string \<rightharpoonup> entry"

definition init_state :: state where
  "init_state =
     \<lparr>users = [], reports = [],
      files = [''reports/.'' \<mapsto> Directory, ''reports/..'' \<mapsto> Directory]\<rparr>"

definition next_id :: "User list \<Rightarrow> int" where
  "next_id us = fold max (map u_id us) 0 + 1"

text \<open>
  \<open>db.add(db_user); db.commit()\<close>: the insert is refused with \<open>IntegrityError\<close> when
  a unique column would repeat, and the table is then as before.
\<close>

definition db_add_commit :: "User list \<Rightarrow> User \<Rightarrow> exc + User list" where
  "db_add_commit us new =
     (if list_ex (\<lambda>u. u_email u = u_email new \<or> u_username u = u_username new) us
      then Inl IntegrityError
      else Inr (us @ [new]))"

text \<open>
  Modelled from the spec: \<open>PDFGenerator.create_report\<close> of \<open>pdf_generator.py\<close>, which
  is not among the sources. It renders topic, body text and author into one artifact and
  writes it to the content store at the given path; an I/O failure during writing is
  fatal to the request. The renderer gives the bytes of the artifact or the message of
  the failure.
\<close>

type_synonym renderer = "string \<Rightarrow> string \<Rightarrow> string \<Rightarrow> string + string"

definition create_report ::
  "renderer \<Rightarrow> (string \<rightharpoonup> entry) \<Rightarrow> string \<Rightarrow> string \<Rightarrow> string \<Rightarrow> string
     \<Rightarrow> exc + (string \<rightharpoonup> entry)" where
  "create_report render store topic content author file_path =
     (case render topic content author of
        Inl msg \<Rightarrow> Inl (RenderError msg)
      | Inr bytes \<Rightarrow> Inr (store(file_path \<mapsto> RegularFile bytes)))"

section \<open>main.py\<close>

text \<open>
  What a request finds around it: the signing secret, the password hashing primitives of
  passlib (which raise on some passwords and hashes, a NUL byte for one), the readings of
  the clocks, the content provider and the renderer.
\<close>

record datetime =
  year :: nat
  month :: nat
  day :: nat
  hour :: nat
  minute :: nat
  second :: nat

record env =
  secret_key :: string
  get_password_hash :: "string \<Rightarrow> exc + string"
  verify_password :: "string \<Rightarrow> string \<Rightarrow> exc + bool"
  now_decode :: int
  now_created :: int
  now_exp :: int
  now_iat :: int
  now_local :: datetime
  ai_service :: AIService
  chat_completions :: provider
  pdf_generator :: renderer

datatype failure = HTTPException nat string | Unhandled exc

record profile =
  p_id :: int
  p_email :: string
  p_username :: string

record token_response =
  access_token :: token
  token_type :: string
  user :: profile

record report_response =
  message :: string
  filename :: string
  download_url :: string

record FileResponse =
  fr_path :: string
  fr_filename :: string
  fr_media_type :: string

text \<open>\<open>strftime("%Y%m%d_%H%M%S")\<close>; \<open>%Y\<close> is the year as glibc prints it, unpadded.\<close>

definition pad2 :: "nat \<Rightarrow> string" where
  "pad2 n = [digit_char (n div 10 mod 10), digit_char (n mod 10)]"

definition strftime :: "datetime \<Rightarrow> string" where
  "strftime dt =
     str_nat (year dt) @ pad2 (month dt) @ pad2 (day dt) @ ''_'' @
     pad2 (hour dt) @ pad2 (minute dt) @ pad2 (second dt)"

text \<open>\<open>str(e)\<close> of the exceptions the handler of \<open>generate_report\<close> can catch.\<close>

fun str_exc :: "exc \<Rightarrow> string" where
  "str_exc (AttributeError msg) = msg"
| "str_exc (RenderError msg) = msg"
| "str_exc e = []"

definition get_current_user :: "env \<Rightarrow> token \<Rightarrow> failure + int" where
  "get_current_user e tok =
     (case decode_token (secret_key e) (now_decode e) tok of
        Inl x \<Rightarrow> Inl (Unhandled x)
      | Inr None \<Rightarrow> Inl (HTTPException 401 ''Invalid token'')
      | Inr (Some user_id) \<Rightarrow> Inr user_id)"

definition public_profile :: "User \<Rightarrow> profile" where
  "public_profile u = \<lparr>p_id = u_id u, p_email = u_email u, p_username = u_username u\<rparr>"

definition signup :: "env \<Rightarrow> state \<Rightarrow> UserCreate \<Rightarrow> (failure + token_response) \<times> state" where
  "signup e st req =
     (case find (\<lambda>u. u_email u = email req) (users st) of
        Some existing_user \<Rightarrow> (Inl (HTTPException 400 ''Email already registered''), st)
      | None \<Rightarrow>
          (case get_password_hash e (password req) of
             Inl x \<Rightarrow> (Inl (Unhandled x), st)
           | Inr hashed_password \<Rightarrow>
               (let db_user = \<lparr>u_id = next_id (users st), u_email = email req,
                               u_username = username req,
                               u_hashed_password = hashed_password,
                               u_created_at = now_created e\<rparr>
                in case db_add_commit (users st) db_user of
                     Inl x \<Rightarrow> (Inl (Unhandled x), st)
                   | Inr us \<Rightarrow>
                       (Inr \<lparr>access_token =
                               encode_token (secret_key e) (now_exp e) (now_iat e) (u_id db_user),
                             token_type = ''bearer'',
                             user = public_profile db_user\<rparr>,
                        st\<lparr>users := us\<rparr>))))"

definition login :: "env \<Rightarrow> state \<Rightarrow> UserLogin \<Rightarrow> failure + token_response" where
  "login e st req =
     (case find (\<lambda>u. u_email u = login_email req) (users st) of
        None \<Rightarrow> Inl (HTTPException 401 ''Invalid credentials'')
      | Some db_user \<Rightarrow>
          (case verify_password e (login_password req) (u_hashed_password db_user) of
             Inl x \<Rightarrow> Inl (Unhandled x)
           | Inr matches \<Rightarrow>
               if \<not> matches
               then Inl (HTTPException 401 ''Invalid credentials'')
               else Inr \<lparr>access_token =
                           encode_token (secret_key e) (now_exp e) (now_iat e) (u_id db_user),
                         token_type = ''bearer'',
                         user = public_profile db_user\<rparr>))"

definition get_current_user_info :: "env \<Rightarrow> state \<Rightarrow> token \<Rightarrow> failure + profile" where
  "get_current_user_info e st tok =
     (case get_current_user e tok of
        Inl f \<Rightarrow> Inl f
      | Inr user_id \<Rightarrow>
          (case find (\<lambda>u. u_id u = user_id) (users st) of
             None \<Rightarrow> Inl (HTTPException 404 ''User not found'')
           | Some u \<Rightarrow> Inr (public_profile u)))"

text \<open>The message of the \<open>AttributeError\<close> that reading \<open>None.username\<close> raises.\<close>

definition NoneType_has_no_username :: string where
  "NoneType_has_no_username =
     [CHR 0x27] @ ''NoneType'' @ [CHR 0x27] @ '' object has no attribute '' @
     [CHR 0x27] @ ''username'' @ [CHR 0x27]"

text \<open>
  The body of the \<open>try\<close> of \<open>generate_report\<close>, in the order of the source: the user
  is looked up, the content generated, the timestamp taken, and only then
  \<open>user.username\<close> read, which raises \<open>AttributeError\<close> when no user was found.
\<close>

definition generate_report_try ::
  "env \<Rightarrow> state \<Rightarrow> int \<Rightarrow> string \<Rightarrow> exc + (report_response \<times> state)" where
  "generate_report_try e st user_id topic =
     (let found = find (\<lambda>u. u_id u = user_id) (users st) in
      case generate_report_content (ai_service e) (chat_completions e) topic of
        Inl x \<Rightarrow> Inl x
      | Inr ai_content \<Rightarrow>
          (let timestamp = strftime (now_local e) in
           case found of
             None \<Rightarrow> Inl (AttributeError NoneType_has_no_username)
           | Some u \<Rightarrow>
               (let fname = ''report_'' @ u_username u @ ''_'' @ timestamp @ ''.pdf'';
                    file_path = ''reports/'' @ fname
                in case create_report (pdf_generator e) (files st) topic ai_content
                          (u_username u) file_path of
                     Inl x \<Rightarrow> Inl x
                   | Inr fs \<Rightarrow>
                       Inr (\<lparr>message = ''Report generated successfully'',
                             filename = fname,
                             download_url = ''/download/'' @ fname\<rparr>,
                            st\<lparr>files := fs\<rparr>))))"

definition generate_report ::
  "env \<Rightarrow> state \<Rightarrow> token \<Rightarrow> string \<Rightarrow> (failure + report_response) \<times> state" where
  "generate_report e st tok topic =
     (case get_current_user e tok of
        Inl f \<Rightarrow> (Inl f, st)
      | Inr user_id \<Rightarrow>
          (case generate_report_try e st user_id topic of
             Inl x \<Rightarrow> (Inl (HTTPException 500 (''Error generating report: '' @ str_exc x)), st)
           | Inr (resp, st') \<Rightarrow> (Inr resp, st')))"

definition download_report :: "env \<Rightarrow> state \<Rightarrow> token \<Rightarrow> string \<Rightarrow> failure + FileResponse" where
  "download_report e st tok fname =
     (case get_current_user e tok of
        Inl f \<Rightarrow> Inl f
      | Inr user_id \<Rightarrow>
          (let file_path = ''reports/'' @ fname in
           if files st file_path = None
           then Inl (HTTPException 404 ''File not found'')
           else Inr \<lparr>fr_path = file_path, fr_filename = fname,
                     fr_media_type = ''application/pdf''\<rparr>))"

text \<open>
  Sending a \<open>FileResponse\<close>, which the framework does after the handler has returned it:
  the bytes of the regular file at its path; \<open>RuntimeError\<close> when there is no file at
  the path or when what is there is not a regular file.
\<close>

definition send_file :: "state \<Rightarrow> FileResponse \<Rightarrow> exc + string" where
  "send_file st r =
     (case files st (fr_path r) of
        None \<Rightarrow> Inl RuntimeError
      | Some Directory \<Rightarrow> Inl RuntimeError
      | Some (RegularFile bytes) \<Rightarrow> Inr bytes)"

text \<open>The download operation as the client sees it: the handler, then the sending.\<close>

definition download :: "env \<Rightarrow> state \<Rightarrow> token \<Rightarrow> string \<Rightarrow> failure + string" where
  "download e st tok fname =
     (case download_report e st tok fname of
        Inl f \<Rightarrow> Inl f
      | Inr r \<Rightarrow>
          (case send_file st r of
             Inl x \<Rightarrow> Inl (Unhandled x)
           | Inr bytes \<Rightarrow> Inr bytes))"

text \<open>
  The boundary operations as requests, and the state each leaves behind. Only
  \<open>signup\<close> and \<open>generate_report\<close> return a state; the others read.
\<close>

datatype request =
    Signup UserCreate
  | Login UserLogin
  | Me token
  | GenerateReport token string
  | Download token string
  | Root
  | Health

fun handle :: "env \<Rightarrow> state \<Rightarrow> request \<Rightarrow> state" where
  "handle e st (Signup req) = snd (signup e st req)"
| "handle e st (Login req) = st"
| "handle e st (Me tok) = st"
| "handle e st (GenerateReport tok topic) = snd (generate_report e st tok topic)"
| "handle e st (Download tok fname) = st"
| "handle e st Root = st"
| "handle e st Health = st"

inductive reachable :: "state \<Rightarrow> bool" where
  start: "reachable init_state"
| step: "reachable st \<Longrightarrow> reachable (handle e st req)"

section \<open>Auxiliary definitions\<close>

text \<open>
  The text of the demo template between one section heading and the next, cut at the first
  occurrence of the topic.
\<close>

definition demo_body_1 :: "string \<Rightarrow> string" where
  "demo_body_1 topic =
     (''This comprehensive report examines '') @ topic @
     ('' from multiple perspectives, providing insights into current trends, challenges, and future opportunities. Our analysis reveals significant developments in this field that warrant attention from stakeholders and decision-makers.\<newline>'' @
      ''\<newline>'')"

definition demo_body_2 :: "string \<Rightarrow> string" where
  "demo_body_2 topic =
     ([]) @ topic @
     ('' has emerged as a critical area of focus in today's rapidly evolving landscape. Understanding its implications requires a thorough examination of historical context, current applications, and future potential. This report aims to provide a detailed analysis that can inform strategic decision-making.\<newline>'' @
      ''\<newline>'')"

definition demo_body_3 :: "string \<Rightarrow> string" where
  "demo_body_3 topic =
     (''The current state of '') @ topic @
     ('' is characterized by rapid growth and innovation. Key players in the market are investing heavily in research and development, leading to breakthrough technologies and methodologies. Market adoption rates have shown consistent upward trends, indicating strong demand and acceptance.\<newline>'' @
      ''\<newline>'' @
      ''Key market indicators include:\<newline>'' @
      bullet @ '' Increased investment from venture capital and institutional investors\<newline>'' @
      bullet @ '' Growing number of specialized companies and startups\<newline>'' @
      bullet @ '' Expansion of use cases across various industries\<newline>'' @
      bullet @ '' Enhanced regulatory frameworks and standards\<newline>'' @
      ''\<newline>'')"

definition demo_body_4 :: "string \<Rightarrow> string" where
  "demo_body_4 topic =
     (''Our research has identified several critical findings regarding '') @ topic @
     ('':\<newline>'' @
      ''\<newline>'' @
      ''1. Market Growth: The sector has experienced unprecedented growth rates, with projections indicating continued expansion over the next five years.\<newline>'' @
      ''\<newline>'' @
      ''2. Technology Advancement: Significant technological breakthroughs have improved efficiency, accuracy, and accessibility.\<newline>'' @
      ''\<newline>'' @
      ''3. Industry Adoption: Major corporations across various sectors are implementing solutions related to '' @ topic @ '', driving mainstream acceptance.\<newline>'' @
      ''\<newline>'' @
      ''4. Consumer Behavior: End-user preferences and behaviors are evolving, creating new opportunities for innovation and service delivery.\<newline>'' @
      ''\<newline>'')"

definition demo_body_5 :: "string \<Rightarrow> string" where
  "demo_body_5 topic =
     (''While '') @ topic @
     ('' presents numerous opportunities, several challenges must be addressed:\<newline>'' @
      ''\<newline>'' @
      ''Challenges:\<newline>'' @
      bullet @ '' Regulatory uncertainty in some jurisdictions\<newline>'' @
      bullet @ '' Skills gap in the workforce\<newline>'' @
      bullet @ '' Infrastructure limitations\<newline>'' @
      bullet @ '' Privacy and security concerns\<newline>'' @
      bullet @ '' Cost barriers for smaller organizations\<newline>'' @
      ''\<newline>'' @
      ''Opportunities:\<newline>'' @
      bullet @ '' Emerging markets showing high growth potential\<newline>'' @
      bullet @ '' Cross-industry collaboration possibilities\<newline>'' @
      bullet @ '' Innovation in supporting technologies\<newline>'' @
      bullet @ '' Government initiatives and funding programs\<newline>'' @
      bullet @ '' Increasing consumer awareness and demand\<newline>'' @
      ''\<newline>'')"

definition demo_body_6 :: "string \<Rightarrow> string" where
  "demo_body_6 topic =
     (''Based on current trajectories and expert analysis, we anticipate several key trends in '') @ topic @
     ('':\<newline>'' @
      ''\<newline>'' @
      ''1. Increased Automation: Greater integration of automated systems and processes\<newline>'' @
      ''2. Enhanced User Experience: Focus on intuitive interfaces and user-centric design\<newline>'' @
      ''3. Sustainability Integration: Growing emphasis on environmental and social responsibility\<newline>'' @
      ''4. Global Standardization: Development of universal standards and protocols\<newline>'' @
      ''5. Democratization: Increased accessibility for smaller organizations and individuals\<newline>'' @
      ''\<newline>'')"

definition demo_body_7 :: "string \<Rightarrow> string" where
  "demo_body_7 topic =
     (''Based on our analysis, we recommend the following strategic actions:\<newline>'' @
      ''\<newline>'' @
      ''1. Investment Strategy: Organizations should consider strategic investments in '') @ topic @
     ('' to maintain competitive advantage.\<newline>'' @
      ''\<newline>'' @
      ''2. Skill Development: Invest in training and development programs to build internal capabilities.\<newline>'' @
      ''\<newline>'' @
      ''3. Partnership Opportunities: Explore collaborative partnerships with technology providers and industry leaders.\<newline>'' @
      ''\<newline>'' @
      ''4. Risk Management: Develop comprehensive risk assessment and mitigation strategies.\<newline>'' @
      ''\<newline>'' @
      ''5. Regulatory Compliance: Stay informed about evolving regulations and ensure compliance frameworks are in place.\<newline>'' @
      ''\<newline>'')"

definition demo_body_8 :: "string \<Rightarrow> string" where
  "demo_body_8 topic =
     ([]) @ topic @
     ('' represents a significant opportunity for organizations willing to embrace innovation and adapt to changing market conditions. While challenges exist, the potential benefits far outweigh the risks for those who approach implementation strategically.\<newline>'' @
      ''\<newline>'' @
      ''Success in this domain requires a balanced approach that considers technological capabilities, market dynamics, regulatory requirements, and organizational readiness. Organizations that act decisively while maintaining flexibility will be best positioned to capitalize on the opportunities presented by '' @ topic @ ''.\<newline>'' @
      ''\<newline>'' @
      ''The landscape will continue to evolve rapidly, making it essential for stakeholders to remain informed and agile in their approach. Regular reassessment of strategies and objectives will be crucial for long-term success in this dynamic environment.'')"

text \<open>A service with a credential and a client, as \<open>__init__\<close> builds it.\<close>

definition sample_service :: AIService where
  "sample_service = AIService_init (Some ''sk-test'') False"

text \<open>The shape \<open>YYYYMMDD_HHMMSS\<close>: eight digits, an underscore, six digits.\<close>

definition timestamp_shape :: "string \<Rightarrow> bool" where
  "timestamp_shape ts =
     (length ts = 15 \<and> list_all is_digit (take 8 ts) \<and> ts ! 8 = CHR ''_'' \<and>
      list_all is_digit (drop 9 ts))"

text \<open>
  Reading a timestamp of that shape back: the year from the first four digits, then two
  digits each for month and day, and after the underscore for hour, minute and second.
\<close>

definition decimal :: "string \<Rightarrow> nat" where
  "decimal ds = foldl (\<lambda>a d. 10 * a + digit_val d) 0 ds"

definition read_timestamp :: "string \<Rightarrow> datetime option" where
  "read_timestamp ts =
     (if timestamp_shape ts
      then Some \<lparr>year = decimal (take 4 ts),
                 month = decimal (take 2 (drop 4 ts)),
                 day = decimal (take 2 (drop 6 ts)),
                 hour = decimal (take 2 (drop 9 ts)),
                 minute = decimal (take 2 (drop 11 ts)),
                 second = decimal (take 2 (drop 13 ts))\<rparr>
      else None)"

text \<open>
  The values of a \<open>datetime\<close> of Python whose year has four digits.
\<close>

definition datetime_ok :: "datetime \<Rightarrow> bool" where
  "datetime_ok dt =
     (1000 \<le> year dt \<and> year dt \<le> 9999 \<and> 1 \<le> month dt \<and> month dt \<le> 12 \<and>
      1 \<le> day dt \<and> day dt \<le> 31 \<and> hour dt < 24 \<and> minute dt < 60 \<and> second dt < 60)"

text \<open>
  A sample deployment: the default secret, no provider credential, a renderer that always
  succeeds; and the requests of two users.
\<close>

definition sample_env :: env where
  "sample_env =
     \<lparr>secret_key = SECRET_KEY None,
      get_password_hash = (\<lambda>p. Inr (''$2b$'' @ p)),
      verify_password = (\<lambda>p h. Inr (h = ''$2b$'' @ p)),
      now_decode = 1000, now_created = 1000, now_exp = 1000, now_iat = 1000,
      now_local = \<lparr>year = 2025, month = 1, day = 2, hour = 3, minute = 4, second = 5\<rparr>,
      ai_service = AIService_init None False,
      chat_completions = (\<lambda>p. ApiRaises),
      pdf_generator = (\<lambda>topic content author. Inr (''%PDF '' @ topic))\<rparr>"

definition alice :: User where
  "alice = \<lparr>u_id = 1, u_email = ''alice@example.com'', u_username = ''alice'',
             u_hashed_password = ''$2b$pw'', u_created_at = 1000\<rparr>"

definition alice_state :: state where
  "alice_state = \<lparr>users = [alice], reports = [], files = files init_state\<rparr>"

definition alice_token :: token where
  "alice_token = encode_token (SECRET_KEY None) 1000 1000 1"

definition bob_token :: token where
  "bob_token = encode_token (SECRET_KEY None) 1000 1000 2"

definition alice_report :: string where
  "alice_report = ''report_alice_20250102_030405.pdf''"

definition report_state :: state where
  "report_state =
     \<lparr>users = [alice], reports = [],
      files = (files init_state)
                (''reports/'' @ alice_report \<mapsto> RegularFile ''%PDF Quantum Computing'')\<rparr>"

section \<open>Integers as text: \<open>int(str(n)) = n\<close>\<close>

declare str_nat.simps [simp del]

declare strip_leading.simps [simp del]

lemma of_char_digit_char: "d < 10 \<Longrightarrow> (of_char (digit_char d) :: nat) = 48 + d"
  by (simp add: digit_char_def)

lemma is_digit_digit_char: "d < 10 \<Longrightarrow> is_digit (digit_char d)"
  by (simp add: is_digit_def of_char_digit_char)

lemma digit_val_digit_char: "d < 10 \<Longrightarrow> digit_val (digit_char d) = d"
  by (simp add: digit_val_def of_char_digit_char)

lemma str_nat_digits: "list_all is_digit (str_nat n)"
proof (induction n rule: str_nat.induct)
  case (1 n)
  show ?case
  proof (cases "n < 10")
    case True
    then show ?thesis by (subst str_nat.simps) (simp add: is_digit_digit_char)
  next
    case False
    with 1 show ?thesis by (subst str_nat.simps) (simp add: is_digit_digit_char)
  qed
qed

lemma str_nat_not_Nil: "str_nat n \<noteq> []"
  by (subst str_nat.simps) simp

lemma str_nat_value: "foldl (\<lambda>a d. 10 * a + digit_val d) 0 (str_nat n) = n"
proof (induction n rule: str_nat.induct)
  case (1 n)
  show ?case
  proof (cases "n < 10")
    case True
    then show ?thesis by (subst str_nat.simps) (simp add: digit_val_digit_char)
  next
    case False
    with 1 show ?thesis by (subst str_nat.simps) (simp add: digit_val_digit_char)
  qed
qed

lemma digit_not_space: "is_digit c \<Longrightarrow> \<not> is_c_space c"
  by (auto simp: is_digit_def is_c_space_def)

lemma digit_not_sign: "is_digit c \<Longrightarrow> c \<noteq> CHR ''-'' \<and> c \<noteq> CHR ''+''"
  by (auto simp: is_digit_def)

lemma minus_not_space: "\<not> is_c_space CHR ''-''"
  by (simp add: is_c_space_def)

lemma skip_c_space_id:
  assumes "s \<noteq> []" and "\<not> is_c_space (hd s)" and "\<not> is_c_space (last s)"
  shows "skip_c_space s = s"
proof -
  from assms have l: "dropWhile is_c_space s = s"
    by (cases s) simp_all
  from assms have "dropWhile is_c_space (rev s) = rev s"
    by (cases "rev s") (simp_all add: last_rev[symmetric] hd_rev)
  then show ?thesis
    by (simp add: skip_c_space_def l)
qed

lemma digits_ok_all: "list_all is_digit cs \<Longrightarrow> digits_ok cs"
  by (induction cs) simp_all

lemma parse_nat_str_nat: "parse_nat (str_nat n) = Some n"
proof -
  have d: "list_all is_digit (str_nat n)"
    by (rule str_nat_digits)
  obtain c cs where e: "str_nat n = c # cs"
    using str_nat_not_Nil by (cases "str_nat n") auto
  from d e have "is_digit c" "list_all is_digit cs"
    by simp_all
  moreover from d have "filter is_digit (str_nat n) = str_nat n"
    by (simp add: list_all_iff)
  ultimately show ?thesis
    using str_nat_value[of n] e by (simp add: parse_nat_def digits_ok_all)
qed

lemma py_int_str_nat: "py_int (str_nat n) = Inr (int n)"
proof -
  have d: "list_all is_digit (str_nat n)"
    by (rule str_nat_digits)
  have ne: "str_nat n \<noteq> []"
    by (rule str_nat_not_Nil)
  from d ne have h: "is_digit (hd (str_nat n))" and l: "is_digit (last (str_nat n))"
    by (simp_all add: list_all_iff)
  have "skip_c_space (str_nat n) = str_nat n"
    using ne h l by (simp add: skip_c_space_id digit_not_space)
  then show ?thesis
    using h digit_not_sign[OF h] by (simp add: py_int_def parse_nat_str_nat)
qed

lemma py_int_str_int: "py_int (str_int i) = Inr i"
proof (cases "i < 0")
  case False
  then show ?thesis
    by (simp add: str_int_def py_int_str_nat)
next
  case True
  have d: "list_all is_digit (str_nat (nat (- i)))"
    by (rule str_nat_digits)
  have ne: "str_nat (nat (- i)) \<noteq> []"
    by (rule str_nat_not_Nil)
  from d ne have l: "is_digit (last (str_nat (nat (- i))))"
    by (simp add: list_all_iff)
  have "skip_c_space (CHR ''-'' # str_nat (nat (- i))) = CHR ''-'' # str_nat (nat (- i))"
    using ne l by (simp add: skip_c_space_id digit_not_space minus_not_space)
  then show ?thesis
    using True by (simp add: str_int_def py_int_def parse_nat_str_nat)
qed

section \<open>The content provider\<close>

lemma demo_content_split:
  "generate_demo_content self topic =
     ''Executive Summary:\<newline>'' @ demo_body_1 topic @
     ''Introduction and Background:\<newline>'' @ demo_body_2 topic @
     ''Current State Analysis:\<newline>'' @ demo_body_3 topic @
     ''Key Findings and Insights:\<newline>'' @ demo_body_4 topic @
     ''Challenges and Opportunities:\<newline>'' @ demo_body_5 topic @
     ''Future Trends and Predictions:\<newline>'' @ demo_body_6 topic @
     ''Recommendations:\<newline>'' @ demo_body_7 topic @
     ''Conclusion:\<newline>'' @ demo_body_8 topic"
  unfolding generate_demo_content_def demo_body_1_def demo_body_2_def demo_body_3_def
    demo_body_4_def demo_body_5_def demo_body_6_def demo_body_7_def demo_body_8_def
  by (simp only: append_assoc append_Nil)

lemma demo_bodies_contain_topic:
  "sublist topic (demo_body_1 topic)" "sublist topic (demo_body_2 topic)"
  "sublist topic (demo_body_3 topic)" "sublist topic (demo_body_4 topic)"
  "sublist topic (demo_body_5 topic)" "sublist topic (demo_body_6 topic)"
  "sublist topic (demo_body_7 topic)" "sublist topic (demo_body_8 topic)"
  unfolding demo_body_1_def demo_body_2_def demo_body_3_def
    demo_body_4_def demo_body_5_def demo_body_6_def demo_body_7_def demo_body_8_def
  by (rule sublist_appendI)+

lemma demo_content_not_Nil: "generate_demo_content self topic \<noteq> []"
  by (simp add: demo_content_split)

text \<open>
  The provider path has its own handler, so it returns on every outcome of the call; the
  outer handler of \<open>generate_report_content\<close> is never entered.
\<close>

lemma generate_with_openai_returns: "\<exists>body. generate_with_openai self api topic = Inr body"
  by (simp add: generate_with_openai_def split: option.split sum.split)

lemma generate_report_content_returns:
  "\<exists>body. generate_report_content self api topic = Inr body"
  using generate_with_openai_returns[of self api topic]
  by (auto simp: generate_report_content_def)

lemma generate_report_content_fallback:
  "\<not> truthy (openai_api_key self) \<or> client self = None \<or> api (prompt topic) = ApiRaises \<or>
   api (prompt topic) = ApiReturns [] \<or> api (prompt topic) = ApiReturns (None # cs) \<or>
   api (prompt topic) = ApiReturns (Some [] # cs)
   \<Longrightarrow> generate_report_content self api topic = Inr (generate_demo_content self topic)"
  by (auto simp: generate_report_content_def generate_with_openai_def split: option.split)

lemma generate_report_content_provider:
  "truthy (openai_api_key self) \<Longrightarrow> client self = Some cl \<Longrightarrow>
   api (prompt topic) = ApiReturns (Some c # cs) \<Longrightarrow> c \<noteq> []
   \<Longrightarrow> generate_report_content self api topic = Inr (strip c)"
  by (simp add: generate_report_content_def generate_with_openai_def)

text \<open>
  Claim C1. For every topic the generate operation returns a body text without raising,
  the fallback text when the call fails or no credential is configured, and the trimmed
  provider output otherwise, where an empty trimmed result triggers the fallback, so that
  whitespace-only provider output never yields an empty result. The code tests the
  content before it trims it: at a provider output of three spaces the operation returns
  the empty text, which is not the fallback text.
\<close>

theorem generate_whitespace_only_output:
  "generate_report_content sample_service (\<lambda>p. ApiReturns [Some ''   '']) ''Quantum Computing''
     = Inr []
   \<and> generate_demo_content sample_service ''Quantum Computing'' \<noteq> []"
  by (simp add: demo_content_not_Nil generate_report_content_def generate_with_openai_def
      sample_service_def AIService_init_def strip_def lstrip_def rstrip_def whitespace_def
      strip_leading.simps)

text \<open>
  Claim C6. The fallback generator is deterministic and depends on no external state:
  whatever the state of the service instance it is called on, the same topic gives the
  same bytes.
\<close>

theorem demo_content_deterministic:
  "generate_demo_content self1 topic = generate_demo_content self2 topic"
  by (simp only: generate_demo_content_def)

text \<open>
  Claim C7. For every topic the output of the fallback generator is made of the eight
  sections, each opened by its heading ending with a colon, and the topic occurs verbatim
  in the text of each of them.
\<close>

theorem demo_content_sections:
  "\<exists>b1 b2 b3 b4 b5 b6 b7 b8.
     generate_demo_content self topic =
       ''Executive Summary:\<newline>'' @ b1 @
       ''Introduction and Background:\<newline>'' @ b2 @
       ''Current State Analysis:\<newline>'' @ b3 @
       ''Key Findings and Insights:\<newline>'' @ b4 @
       ''Challenges and Opportunities:\<newline>'' @ b5 @
       ''Future Trends and Predictions:\<newline>'' @ b6 @
       ''Recommendations:\<newline>'' @ b7 @
       ''Conclusion:\<newline>'' @ b8 \<and>
     sublist topic b1 \<and> sublist topic b2 \<and> sublist topic b3 \<and> sublist topic b4 \<and>
     sublist topic b5 \<and> sublist topic b6 \<and> sublist topic b7 \<and> sublist topic b8"
  using demo_content_split[of self topic] demo_bodies_contain_topic[of topic]
  by blast

section \<open>The token service\<close>

lemma jwt_decode_cases:
  "jwt_decode tok key now = Inl ExpiredSignatureError \<or>
   jwt_decode tok key now = Inl InvalidTokenError \<or>
   (\<exists>p. jwt_decode tok key now = Inr p)"
  by (simp add: jwt_decode_def split: token.split)

text \<open>
  Every token that \<open>jwt.decode\<close> rejects validates to \<open>None\<close>: malformed, signed with
  another secret, expired.
\<close>

lemma decode_token_rejected:
  "jwt_decode tok key now = Inl x \<Longrightarrow> decode_token key now tok = Inr None"
  using jwt_decode_cases[of tok key now] by (auto simp: decode_token_def)

lemma decode_token_malformed: "decode_token key now (Malformed raw) = Inr None"
  by (simp add: decode_token_def jwt_decode_def)

lemma decode_token_other_secret:
  "hmac_key k \<noteq> hmac_key key \<Longrightarrow> decode_token key now (JWS k payload) = Inr None"
  by (simp add: decode_token_def jwt_decode_def)

lemma decode_token_expired:
  "jwt_exp payload = Some t \<Longrightarrow> t \<le> now \<Longrightarrow> decode_token key now (JWS k payload) = Inr None"
  by (simp add: decode_token_def jwt_decode_def)

lemma decode_token_raises_KeyError:
  "decode_token key now (JWS key \<lparr>jwt_exp = None, jwt_iat = None, jwt_sub = None\<rparr>) = Inl KeyError"
  by (simp add: decode_token_def jwt_decode_def)

text \<open>A token of this program validates to its user from its issue until its expiry.\<close>

lemma decode_token_encode_token:
  "t_iat \<le> now \<Longrightarrow> now < t_exp + 30 * 60 \<Longrightarrow>
   decode_token key now (encode_token key t_exp t_iat u) = Inr (Some u)"
  by (simp add: encode_token_def jwt_encode_def ACCESS_TOKEN_EXPIRE_MINUTES_def
      decode_token_def jwt_decode_def py_int_str_int)

text \<open>
  Claim C2. Token validation never throws, and returns \<open>None\<close> for every failure cause.
  The handlers of \<open>decode_token\<close> name the errors of \<open>jwt.decode\<close> only: a token
  signed with the secret of the process (here the default of \<open>auth.py\<close>) whose subject
  is not a numeral passes \<open>jwt.decode\<close>, and \<open>int(payload['sub'])\<close> raises
  \<open>ValueError\<close> out of \<open>decode_token\<close>.
\<close>

theorem decode_token_raises_ValueError:
  "decode_token (SECRET_KEY None) 0
     (JWS (SECRET_KEY None) \<lparr>jwt_exp = None, jwt_iat = None, jwt_sub = Some ''abc''\<rparr>)
   = Inl ValueError"
  by (simp add: decode_token_def jwt_decode_def py_int_def skip_c_space_def is_c_space_def
      parse_nat_def is_digit_def)

text \<open>
  Claim C5. A token issued for user \<open>u\<close> at time \<open>t\<close> (both readings of the clock in
  the second \<open>t\<close>) embeds \<open>u\<close>, \<open>iat = t\<close> and \<open>exp = t + 30\<close> minutes; validated
  from \<open>t\<close> on and before its expiry it gives \<open>u\<close>, validated at or after its expiry it
  gives \<open>None\<close>.
\<close>

theorem token_issue_validate:
  "encode_token key t t u =
     JWS key \<lparr>jwt_exp = Some (t + 30 * 60), jwt_iat = Some t, jwt_sub = Some (str_int u)\<rparr>
   \<and> (t \<le> now \<and> now < t + 30 * 60 \<longrightarrow>
        decode_token key now (encode_token key t t u) = Inr (Some u))
   \<and> (t + 30 * 60 \<le> now \<longrightarrow>
        decode_token key now (encode_token key t t u) = Inr None)"
  by (simp add: encode_token_def jwt_encode_def ACCESS_TOKEN_EXPIRE_MINUTES_def
      decode_token_def jwt_decode_def py_int_str_int)

theorem token_issue_validate_witness:
  "encode_token ''s3cret'' 1000 1000 42 =
     JWS ''s3cret'' \<lparr>jwt_exp = Some 2800, jwt_iat = Some 1000, jwt_sub = Some ''42''\<rparr>
   \<and> ((1000::int) \<le> 1000 \<and> (1000::int) < 1000 + 30 * 60)
   \<and> decode_token ''s3cret'' 1000 (encode_token ''s3cret'' 1000 1000 42) = Inr (Some 42)
   \<and> ((1000::int) \<le> 2799 \<and> (2799::int) < 1000 + 30 * 60)
   \<and> decode_token ''s3cret'' 2799 (encode_token ''s3cret'' 1000 1000 42) = Inr (Some 42)
   \<and> (1000::int) + 30 * 60 \<le> 2800
   \<and> decode_token ''s3cret'' 2800 (encode_token ''s3cret'' 1000 1000 42) = Inr None"
proof -
  have s: "str_int 42 = ''42''"
    by code_simp
  have a: "encode_token ''s3cret'' 1000 1000 42 =
      JWS ''s3cret'' \<lparr>jwt_exp = Some 2800, jwt_iat = Some 1000, jwt_sub = Some ''42''\<rparr>"
    using token_issue_validate[of "''s3cret''" 1000 42 1000] by (simp add: s)
  have b: "decode_token ''s3cret'' 1000 (encode_token ''s3cret'' 1000 1000 42) = Inr (Some 42)"
    using token_issue_validate[of "''s3cret''" 1000 42 1000] by auto
  have c: "decode_token ''s3cret'' 2799 (encode_token ''s3cret'' 1000 1000 42) = Inr (Some 42)"
    using token_issue_validate[of "''s3cret''" 1000 42 2799] by auto
  have d: "decode_token ''s3cret'' 2800 (encode_token ''s3cret'' 1000 1000 42) = Inr None"
    using token_issue_validate[of "''s3cret''" 1000 42 2800] by auto
  show ?thesis
    using a b c d by simp
qed

section \<open>The request handlers\<close>

lemma get_current_user_valid:
  "decode_token (secret_key e) (now_decode e) tok = Inr (Some uid) \<Longrightarrow>
   get_current_user e tok = Inr uid"
  by (simp add: get_current_user_def)

lemma get_current_user_Inr:
  "get_current_user e tok = Inr uid \<Longrightarrow>
   decode_token (secret_key e) (now_decode e) tok = Inr (Some uid)"
  by (simp add: get_current_user_def split: sum.splits option.splits)

subsection \<open>signup\<close>

lemma signup_email_taken:
  "find (\<lambda>u. u_email u = email req) (users st) = Some u \<Longrightarrow>
   signup e st req = (Inl (HTTPException 400 ''Email already registered''), st)"
  by (simp add: signup_def)

lemma signup_username_taken:
  assumes "find (\<lambda>u. u_email u = email req) (users st) = None"
      and "get_password_hash e (password req) = Inr h"
      and "list_ex (\<lambda>u. u_username u = username req) (users st)"
  shows "signup e st req = (Inl (Unhandled IntegrityError), st)"
proof -
  from assms(3) have "list_ex (\<lambda>u. u_email u = email req \<or> u_username u = username req) (users st)"
    by (auto simp: list_ex_iff)
  with assms(1,2) show ?thesis
    by (simp add: signup_def db_add_commit_def Let_def)
qed

lemma signup_users:
  "users (snd (signup e st req)) = users st \<or>
   (\<exists>u. users (snd (signup e st req)) = users st @ [u])"
  by (auto simp: signup_def db_add_commit_def Let_def split: option.split sum.split)

text \<open>
  Claim C3. A signup whose email or username already exists fails with the duplicate
  identity error and leaves the user store unchanged. An existing email is answered with
  the 400 response \<open>Email already registered\<close>; the handler does not look at the
  username, so for a new email with an existing username the insert is refused by the
  store and the \<open>IntegrityError\<close> leaves the handler unhandled. The store is unchanged
  in both cases.
\<close>

theorem signup_duplicate_username_unhandled:
  "list_ex (\<lambda>u. u_username u = ''alice'') (users alice_state) \<and>
   signup sample_env alice_state
     \<lparr>email = ''bob@example.com'', username = ''alice'', password = ''pw2''\<rparr>
   = (Inl (Unhandled IntegrityError), alice_state)"
  by (simp add: signup_def db_add_commit_def Let_def alice_state_def alice_def sample_env_def)

subsection \<open>download\<close>

lemma download_report_valid:
  "get_current_user e tok = Inr uid \<Longrightarrow>
   download_report e st tok fname =
     (if files st (''reports/'' @ fname) = None
      then Inl (HTTPException 404 ''File not found'')
      else Inr \<lparr>fr_path = ''reports/'' @ fname, fr_filename = fname,
                fr_media_type = ''application/pdf''\<rparr>)"
  by (simp add: download_report_def Let_def)

text \<open>
  With a valid token the result of a download is decided by the content store alone: the
  bytes of a regular file, 404 for a path that does not exist, and the same result
  whoever the user of the token is.
\<close>

lemma download_regular_file:
  "decode_token (secret_key e) (now_decode e) tok = Inr (Some uid) \<Longrightarrow>
   files st (''reports/'' @ fname) = Some (RegularFile bytes) \<Longrightarrow>
   download e st tok fname = Inr bytes"
  using download_report_valid[OF get_current_user_valid, of e tok uid st fname]
  by (simp add: download_def send_file_def)

lemma download_absent:
  "decode_token (secret_key e) (now_decode e) tok = Inr (Some uid) \<Longrightarrow>
   files st (''reports/'' @ fname) = None \<Longrightarrow>
   download e st tok fname = Inl (HTTPException 404 ''File not found'')"
  using download_report_valid[OF get_current_user_valid, of e tok uid st fname]
  by (simp add: download_def)

lemma download_directory:
  "decode_token (secret_key e) (now_decode e) tok = Inr (Some uid) \<Longrightarrow>
   files st (''reports/'' @ fname) = Some Directory \<Longrightarrow>
   download e st tok fname = Inl (Unhandled RuntimeError)"
  using download_report_valid[OF get_current_user_valid, of e tok uid st fname]
  by (simp add: download_def send_file_def)

lemma download_any_valid_token:
  assumes "decode_token (secret_key e1) (now_decode e1) tok1 = Inr (Some uid1)"
      and "decode_token (secret_key e2) (now_decode e2) tok2 = Inr (Some uid2)"
  shows "download_report e1 st tok1 fname = download_report e2 st tok2 fname"
    and "download e1 st tok1 fname = download e2 st tok2 fname"
  using download_report_valid[OF get_current_user_valid[OF assms(1)], of st fname]
    download_report_valid[OF get_current_user_valid[OF assms(2)], of st fname]
  by (simp_all add: download_def)

subsection \<open>strftime\<close>

lemma length_str_nat_1: "n < 10 \<Longrightarrow> length (str_nat n) = 1"
  by (subst str_nat.simps) simp

lemma length_str_nat_2: "10 \<le> n \<Longrightarrow> n < 100 \<Longrightarrow> length (str_nat n) = 2"
  by (subst str_nat.simps) (simp add: length_str_nat_1)

lemma length_str_nat_3: "100 \<le> n \<Longrightarrow> n < 1000 \<Longrightarrow> length (str_nat n) = 3"
  by (subst str_nat.simps) (simp add: length_str_nat_2)

lemma length_str_nat_4: "1000 \<le> n \<Longrightarrow> n \<le> 9999 \<Longrightarrow> length (str_nat n) = 4"
  by (subst str_nat.simps) (simp add: length_str_nat_3)

lemma pad2_digits: "list_all is_digit (pad2 n)"
  by (simp add: pad2_def is_digit_digit_char)

lemma length_pad2: "length (pad2 n) = 2"
  by (simp add: pad2_def)

lemma decimal_str_nat: "decimal (str_nat n) = n"
  by (simp add: decimal_def str_nat_value)

lemma decimal_pad2: "n < 100 \<Longrightarrow> decimal (pad2 n) = n"
  by (simp add: decimal_def pad2_def digit_val_digit_char)

lemma timestamp_shape_append:
  assumes "length d = 8" and "length t = 6"
      and "list_all is_digit d" and "list_all is_digit t"
  shows "timestamp_shape (d @ CHR ''_'' # t)"
proof -
  from assms(1) have "take 8 (d @ CHR ''_'' # t) = d"
    by simp
  moreover from assms(1) have "drop 9 (d @ CHR ''_'' # t) = t"
    by (simp add: numeral_eq_Suc)
  moreover from assms(1) have "(d @ CHR ''_'' # t) ! 8 = CHR ''_''"
    by (simp add: nth_append)
  ultimately show ?thesis
    using assms unfolding timestamp_shape_def by simp
qed

lemma strftime_shape:
  assumes "1000 \<le> year dt" and "year dt \<le> 9999"
  shows "timestamp_shape (strftime dt)"
proof -
  let ?d = "str_nat (year dt) @ pad2 (month dt) @ pad2 (day dt)"
  let ?t = "pad2 (hour dt) @ pad2 (minute dt) @ pad2 (second dt)"
  have e: "strftime dt = ?d @ CHR ''_'' # ?t"
    by (simp add: strftime_def)
  have ld: "length ?d = 8"
    using assms by (simp add: length_str_nat_4 length_pad2)
  have lt: "length ?t = 6"
    by (simp add: length_pad2)
  have dd: "list_all is_digit ?d"
    by (simp add: str_nat_digits pad2_digits)
  have dt: "list_all is_digit ?t"
    by (simp add: pad2_digits)
  show ?thesis
    unfolding e using ld lt dd dt by (rule timestamp_shape_append)
qed

text \<open>The timestamp reads back as the local time it was printed from.\<close>

lemma timestamp_fields:
  assumes "length y = 4" and "length mo = 2" and "length d = 2"
      and "length h = 2" and "length mi = 2" and "length s = 2"
  shows "take 4 (y @ mo @ d @ c # h @ mi @ s) = y"
    and "take 2 (drop 4 (y @ mo @ d @ c # h @ mi @ s)) = mo"
    and "take 2 (drop 6 (y @ mo @ d @ c # h @ mi @ s)) = d"
    and "take 2 (drop 9 (y @ mo @ d @ c # h @ mi @ s)) = h"
    and "take 2 (drop 11 (y @ mo @ d @ c # h @ mi @ s)) = mi"
    and "take 2 (drop 13 (y @ mo @ d @ c # h @ mi @ s)) = s"
proof -
  from assms(1) obtain y1 y2 y3 y4 where y: "y = [y1, y2, y3, y4]"
    by (auto simp: numeral_eq_Suc length_Suc_conv)
  from assms(2) obtain a1 a2 where mo: "mo = [a1, a2]"
    by (auto simp: numeral_eq_Suc length_Suc_conv)
  from assms(3) obtain b1 b2 where d: "d = [b1, b2]"
    by (auto simp: numeral_eq_Suc length_Suc_conv)
  from assms(4) obtain c1 c2 where h: "h = [c1, c2]"
    by (auto simp: numeral_eq_Suc length_Suc_conv)
  from assms(5) obtain d1 d2 where mi: "mi = [d1, d2]"
    by (auto simp: numeral_eq_Suc length_Suc_conv)
  from assms(6) obtain e1 e2 where s: "s = [e1, e2]"
    by (auto simp: numeral_eq_Suc length_Suc_conv)
  show "take 4 (y @ mo @ d @ c # h @ mi @ s) = y"
    and "take 2 (drop 4 (y @ mo @ d @ c # h @ mi @ s)) = mo"
    and "take 2 (drop 6 (y @ mo @ d @ c # h @ mi @ s)) = d"
    and "take 2 (drop 9 (y @ mo @ d @ c # h @ mi @ s)) = h"
    and "take 2 (drop 11 (y @ mo @ d @ c # h @ mi @ s)) = mi"
    and "take 2 (drop 13 (y @ mo @ d @ c # h @ mi @ s)) = s"
    by (simp_all add: y mo d h mi s)
qed

lemma read_timestamp_strftime:
  assumes "datetime_ok dt"
  shows "read_timestamp (strftime dt) = Some dt"
proof -
  from assms have y: "1000 \<le> year dt" "year dt \<le> 9999"
    and r: "month dt < 100" "day dt < 100" "hour dt < 100" "minute dt < 100" "second dt < 100"
    by (simp_all add: datetime_ok_def)
  have sh: "timestamp_shape (strftime dt)"
    using y by (rule strftime_shape)
  have e: "strftime dt = str_nat (year dt) @ pad2 (month dt) @ pad2 (day dt) @
      CHR ''_'' # pad2 (hour dt) @ pad2 (minute dt) @ pad2 (second dt)"
    by (simp add: strftime_def)
  note f = timestamp_fields[OF length_str_nat_4[OF y] length_pad2 length_pad2
      length_pad2 length_pad2 length_pad2]
  have t: "take 4 (strftime dt) = str_nat (year dt)"
    "take 2 (drop 4 (strftime dt)) = pad2 (month dt)"
    "take 2 (drop 6 (strftime dt)) = pad2 (day dt)"
    "take 2 (drop 9 (strftime dt)) = pad2 (hour dt)"
    "take 2 (drop 11 (strftime dt)) = pad2 (minute dt)"
    "take 2 (drop 13 (strftime dt)) = pad2 (second dt)"
    unfolding e by (rule f)+
  have "read_timestamp (strftime dt) =
      Some \<lparr>year = year dt, month = month dt, day = day dt,
            hour = hour dt, minute = minute dt, second = second dt\<rparr>"
    unfolding read_timestamp_def
    by (simp only: sh t if_True decimal_str_nat decimal_pad2[OF r(1)] decimal_pad2[OF r(2)]
        decimal_pad2[OF r(3)] decimal_pad2[OF r(4)] decimal_pad2[OF r(5)])
  then show ?thesis
    by simp
qed

subsection \<open>generate-report\<close>

lemma generate_report_try_unknown_user:
  "find (\<lambda>u. u_id u = uid) (users st) = None \<Longrightarrow>
   generate_report_try e st uid topic = Inl (AttributeError NoneType_has_no_username)"
  using generate_report_content_returns[of "ai_service e" "chat_completions e" topic]
  by (auto simp: generate_report_try_def Let_def)

lemma generate_report_try_Inr:
  assumes "generate_report_try e st uid topic = Inr (resp, st')"
  shows "\<exists>u content bytes.
           find (\<lambda>x. u_id x = uid) (users st) = Some u \<and>
           generate_report_content (ai_service e) (chat_completions e) topic = Inr content \<and>
           pdf_generator e topic content (u_username u) = Inr bytes \<and>
           filename resp = ''report_'' @ u_username u @ ''_'' @ strftime (now_local e) @ ''.pdf'' \<and>
           download_url resp = ''/download/'' @ filename resp \<and>
           message resp = ''Report generated successfully'' \<and>
           st' = st\<lparr>files := (files st)(''reports/'' @ filename resp \<mapsto> RegularFile bytes)\<rparr>"
  using assms
  by (auto simp: generate_report_try_def Let_def create_report_def
      split: sum.splits option.splits)

text \<open>
  Claim C8. A successful generate-report request returns the filename
  \<open>report_<username>_<timestamp>.pdf\<close> of the user of the token, where the timestamp has
  the shape \<open>YYYYMMDD_HHMMSS\<close> and reads back as the local time of the request (a
  \<open>datetime\<close> with a four-digit year); the artifact, rendered from the topic, the text
  the content provider gave and the username, is written to the content store under that
  filename, nothing else of the state changes, and the retrieval path is \<open>/download/\<close>
  followed by the filename.
\<close>

theorem generate_report_handle:
  assumes "generate_report e st tok topic = (Inr resp, st')"
      and "datetime_ok (now_local e)"
  shows "\<exists>u ts content bytes.
           decode_token (secret_key e) (now_decode e) tok = Inr (Some (u_id u)) \<and>
           find (\<lambda>x. u_id x = u_id u) (users st) = Some u \<and>
           generate_report_content (ai_service e) (chat_completions e) topic = Inr content \<and>
           pdf_generator e topic content (u_username u) = Inr bytes \<and>
           timestamp_shape ts \<and> read_timestamp ts = Some (now_local e) \<and>
           filename resp = ''report_'' @ u_username u @ ''_'' @ ts @ ''.pdf'' \<and>
           download_url resp = ''/download/'' @ filename resp \<and>
           message resp = ''Report generated successfully'' \<and>
           st' = st\<lparr>files := (files st)(''reports/'' @ filename resp \<mapsto> RegularFile bytes)\<rparr>"
proof -
  from assms(1) obtain uid where g: "get_current_user e tok = Inr uid"
    and t: "generate_report_try e st uid topic = Inr (resp, st')"
    by (auto simp: generate_report_def split: sum.splits)
  from generate_report_try_Inr[OF t] obtain u content bytes where
    f: "find (\<lambda>x. u_id x = uid) (users st) = Some u" and
    c: "generate_report_content (ai_service e) (chat_completions e) topic = Inr content" and
    p: "pdf_generator e topic content (u_username u) = Inr bytes" and
    n: "filename resp = ''report_'' @ u_username u @ ''_'' @ strftime (now_local e) @ ''.pdf''" and
    d: "download_url resp = ''/download/'' @ filename resp" and
    m: "message resp = ''Report generated successfully''" and
    s: "st' = st\<lparr>files := (files st)(''reports/'' @ filename resp \<mapsto> RegularFile bytes)\<rparr>"
    by blast
  from f have i: "u_id u = uid"
    by (auto simp: find_Some_iff)
  from assms(2) have "1000 \<le> year (now_local e)" "year (now_local e) \<le> 9999"
    by (simp_all add: datetime_ok_def)
  then have sh: "timestamp_shape (strftime (now_local e))"
    by (rule strftime_shape)
  have rd: "read_timestamp (strftime (now_local e)) = Some (now_local e)"
    using assms(2) by (rule read_timestamp_strftime)
  from get_current_user_Inr[OF g] i f c p sh rd n d m s show ?thesis
    by blast
qed

text \<open>The report a request has generated can be downloaded with any valid token.\<close>

lemma generate_report_then_download:
  assumes "generate_report e st tok topic = (Inr resp, st')"
      and "decode_token (secret_key e2) (now_decode e2) tok2 = Inr (Some uid2)"
  shows "\<exists>bytes. download e2 st' tok2 (filename resp) = Inr bytes"
proof -
  from assms(1) obtain uid where "generate_report_try e st uid topic = Inr (resp, st')"
    by (auto simp: generate_report_def split: sum.splits)
  from generate_report_try_Inr[OF this] obtain bytes where
    "files st' (''reports/'' @ filename resp) = Some (RegularFile bytes)"
    by auto
  from download_regular_file[OF assms(2) this] show ?thesis
    by blast
qed

text \<open>
  Claim C10. A generate-report request with a valid token whose user identifier matches
  no user record fails with the catch-all 500 response of the handler, not with 404: the
  user is resolved inside the \<open>try\<close>, and reading the username of \<open>None\<close> raises
  there. The state is left as it was.
\<close>

theorem generate_report_unknown_user:
  assumes "decode_token (secret_key e) (now_decode e) tok = Inr (Some uid)"
      and "find (\<lambda>u. u_id u = uid) (users st) = None"
  shows "generate_report e st tok topic =
           (Inl (HTTPException 500 (''Error generating report: '' @ NoneType_has_no_username)), st)
       \<and> fst (generate_report e st tok topic) \<noteq> Inl (HTTPException 404 detail)"
  using get_current_user_valid[OF assms(1)] generate_report_try_unknown_user[OF assms(2)]
  by (simp add: generate_report_def)

subsection \<open>The reports ledger\<close>

lemma reports_signup: "reports (snd (signup e st req)) = reports st"
  by (simp add: signup_def Let_def split: option.split sum.split)

lemma reports_generate_report: "reports (snd (generate_report e st tok topic)) = reports st"
proof (cases "generate_report e st tok topic")
  case (Pair r st')
  show ?thesis
  proof (cases r)
    case (Inl f)
    with Pair have "st' = st"
      by (auto simp: generate_report_def split: sum.splits)
    with Pair show ?thesis by simp
  next
    case (Inr resp)
    with Pair obtain uid where "generate_report_try e st uid topic = Inr (resp, st')"
      by (auto simp: generate_report_def split: sum.splits)
    from generate_report_try_Inr[OF this] Pair show ?thesis
      by auto
  qed
qed

lemma reports_handle: "reports (handle e st req) = reports st"
  by (cases req) (simp_all add: reports_signup reports_generate_report)

lemma reachable_reports: "reachable st \<Longrightarrow> reports st = []"
proof (induction rule: reachable.induct)
  case start
  show ?case by (simp add: init_state_def)
next
  case (step st e req)
  then show ?case by (simp add: reports_handle)
qed

text \<open>
  Claim C9. No boundary operation writes to the reports table: every request leaves it as
  it was, and it is empty in every state reachable from the initial one.
\<close>

theorem reports_ledger_empty:
  "reports (handle e st req) = reports st \<and> (reachable st \<longrightarrow> reports st = [])"
  by (simp add: reports_handle reachable_reports)

subsection \<open>The sample deployment\<close>

lemma sample_tokens_valid:
  "decode_token (secret_key sample_env) (now_decode sample_env) alice_token = Inr (Some 1)"
  "decode_token (secret_key sample_env) (now_decode sample_env) bob_token = Inr (Some 2)"
  by (simp_all add: sample_env_def alice_token_def bob_token_def decode_token_encode_token)

lemma sample_strftime: "strftime (now_local sample_env) = ''20250102_030405''"
  by code_simp

lemma sample_datetime_ok: "datetime_ok (now_local sample_env)"
  by (simp add: datetime_ok_def sample_env_def)

lemma sample_signup:
  "handle sample_env init_state
     (Signup \<lparr>email = ''alice@example.com'', username = ''alice'', password = ''pw''\<rparr>)
   = alice_state"
  by (simp add: signup_def sample_env_def init_state_def alice_state_def alice_def
      next_id_def db_add_commit_def Let_def)

lemma sample_generate_report:
  "generate_report sample_env alice_state alice_token ''Quantum Computing'' =
     (Inr \<lparr>message = ''Report generated successfully'', filename = alice_report,
            download_url = ''/download/'' @ alice_report\<rparr>, report_state)"
proof -
  obtain body where b: "generate_report_content (ai_service sample_env)
      (chat_completions sample_env) ''Quantum Computing'' = Inr body"
    using generate_report_content_returns by blast
  have u: "find (\<lambda>u. u_id u = 1) (users alice_state) = Some alice"
    by (simp add: alice_state_def alice_def)
  have r: "pdf_generator sample_env ''Quantum Computing'' body (u_username alice)
      = Inr ''%PDF Quantum Computing''"
    by (simp add: sample_env_def)
  have t: "generate_report_try sample_env alice_state 1 ''Quantum Computing'' =
     Inr (\<lparr>message = ''Report generated successfully'', filename = alice_report,
            download_url = ''/download/'' @ alice_report\<rparr>, report_state)"
    using b u r
    by (simp add: generate_report_try_def Let_def create_report_def sample_strftime
        alice_report_def alice_def alice_state_def report_state_def)
  show ?thesis
    using get_current_user_valid[OF sample_tokens_valid(1)] t
    by (simp add: generate_report_def)
qed

lemma reachable_report_state: "reachable report_state"
proof -
  have "reachable alice_state"
    using reachable.step[OF reachable.start] sample_signup by metis
  from reachable.step[OF this, of sample_env "GenerateReport alice_token ''Quantum Computing''"]
  show ?thesis
    by (simp add: sample_generate_report)
qed

text \<open>
  Claim C4. With a valid token the download succeeds and returns the artifact exactly
  when a file of that name exists in the content store, and fails with 404 otherwise,
  whoever the user of the token is. The handler asks \<open>os.path.exists\<close>, which also holds
  of a directory: for the filename \<open>..\<close> the path \<open>reports/..\<close> exists in every
  reachable state, the handler returns a \<open>FileResponse\<close> for it instead of the 404, and
  sending it fails, since no file of that name exists. For regular files and for paths
  that do not exist the operation does what the claim says, the same for every user.
\<close>

theorem download_directory_not_404:
  "decode_token (secret_key sample_env) (now_decode sample_env) alice_token = Inr (Some 1)
   \<and> reachable report_state
   \<and> files report_state (''reports/'' @ ''..'') = Some Directory
   \<and> download_report sample_env report_state alice_token ''..'' =
       Inr \<lparr>fr_path = ''reports/..'', fr_filename = ''..'', fr_media_type = ''application/pdf''\<rparr>
   \<and> download sample_env report_state alice_token ''..'' = Inl (Unhandled RuntimeError)"
proof -
  have d: "files report_state (''reports/'' @ ''..'') = Some Directory"
    by (simp add: report_state_def init_state_def alice_report_def)
  have r: "download_report sample_env report_state alice_token ''..'' =
       Inr \<lparr>fr_path = ''reports/..'', fr_filename = ''..'', fr_media_type = ''application/pdf''\<rparr>"
    using download_report_valid[OF get_current_user_valid[OF sample_tokens_valid(1)],
        of report_state "''..''"] d
    by simp
  show ?thesis
    using sample_tokens_valid(1) reachable_report_state d r
      download_directory[OF sample_tokens_valid(1) d]
    by simp
qed

theorem generate_report_handle_witness:
  "generate_report sample_env alice_state alice_token ''Quantum Computing'' =
     (Inr \<lparr>message = ''Report generated successfully'', filename = alice_report,
            download_url = ''/download/'' @ alice_report\<rparr>, report_state)
   \<and> datetime_ok (now_local sample_env)
   \<and> (\<exists>u ts content bytes.
         decode_token (secret_key sample_env) (now_decode sample_env) alice_token
           = Inr (Some (u_id u)) \<and>
         find (\<lambda>x. u_id x = u_id u) (users alice_state) = Some u \<and>
         generate_report_content (ai_service sample_env) (chat_completions sample_env)
           ''Quantum Computing'' = Inr content \<and>
         pdf_generator sample_env ''Quantum Computing'' content (u_username u) = Inr bytes \<and>
         timestamp_shape ts \<and> read_timestamp ts = Some (now_local sample_env) \<and>
         alice_report = ''report_'' @ u_username u @ ''_'' @ ts @ ''.pdf'' \<and>
         report_state =
           alice_state\<lparr>files := (files alice_state)(''reports/'' @ alice_report \<mapsto>
             RegularFile bytes)\<rparr>)"
  using generate_report_handle[OF sample_generate_report sample_datetime_ok]
    sample_generate_report sample_datetime_ok
  by simp

theorem generate_report_unknown_user_witness:
  "decode_token (secret_key sample_env) (now_decode sample_env) bob_token = Inr (Some 2)
   \<and> find (\<lambda>u. u_id u = 2) (users alice_state) = None
   \<and> generate_report sample_env alice_state bob_token ''Quantum Computing'' =
       (Inl (HTTPException 500 (''Error generating report: '' @ NoneType_has_no_username)),
        alice_state)
   \<and> fst (generate_report sample_env alice_state bob_token ''Quantum Computing'')
       \<noteq> Inl (HTTPException 404 ''User not found'')"
proof -
  have n: "find (\<lambda>u. u_id u = 2) (users alice_state) = None"
    by (simp add: alice_state_def alice_def)
  show ?thesis
    using generate_report_unknown_user[OF sample_tokens_valid(2) n,
        of "''Quantum Computing''" "''User not found''"] sample_tokens_valid(2) n
    by simp
qed

theorem reports_ledger_empty_witness:
  "reachable report_state \<and> reports report_state = [] \<and>
   reports (handle sample_env report_state (GenerateReport alice_token ''Quantum Computing''))
     = reports report_state"
  using reports_ledger_empty[of sample_env report_state
      "GenerateReport alice_token ''Quantum Computing''"] reachable_report_state
  by simp

end
